theory Spec2Isabelle
  imports Main "HOL-Library.Word"
begin

section \<open>Machine types and header constants\<close>

text \<open>
  The beacon is C for the Raspberry Pi Pico. The Hungarian prefixes of the field names
  (\<open>_u8_\<close>, \<open>_u32_\<close>, \<open>_u64_\<close>) give the widths of the unsigned fields; C's \<open>int\<close> holds
  only small values here (a second of the hour, a slot number, a 0/1 latch, a status)
  and is modelled by \<open>int\<close>.
\<close>

type_synonym u8 = "8 word"
type_synonym u32 = "32 word"
type_synonym u64 = "64 word"

text \<open>Modelled from the spec: the macro \<open>kHz\<close> is defined in a header that is not part of
  the sources; the hardware floor \<open>1100 * kHz\<close> is 1,100,000 Hz.\<close>

definition kHz :: nat where
  "kHz = 1000"

text \<open>Modelled from the spec: the macro \<open>MINUTE\<close> is defined in a header that is not part
  of the sources; a slot is \<open>2 * MINUTE\<close> = 120 seconds wide.\<close>

definition MINUTE :: nat where
  "MINUTE = 60"

text \<open>Modelled from the spec: the macro \<open>HOUR\<close> is defined in a header that is not part of
  the sources; the second of the hour is taken modulo 3600 and the holdover bound
  \<open>2 * HOUR\<close> is 7200 seconds.\<close>

definition HOUR :: nat where
  "HOUR = 3600"

text \<open>Modelled from the spec: the macro \<open>YES\<close> is defined in a header that is not part of
  the sources; the override flag is enabled when the configuration byte equals it.\<close>

definition YES :: int where
  "YES = 1"

text \<open>Modelled from the spec: the macro \<open>ZERO\<close> is defined in a header that is not part of
  the sources; a slot qualifies when the slot index modulo the skip factor equals 0.\<close>

definition ZERO :: int where
  "ZERO = 0"

text \<open>Modelled from the spec: the macro \<open>WSPR_SYMBOL_COUNT\<close> is defined in a header that is
  not part of the sources; it is the protocol's fixed symbol count, 162 channel symbols
  for a WSPR frame.\<close>

definition WSPR_SYMBOL_COUNT :: nat where
  "WSPR_SYMBOL_COUNT = 162"

text \<open>C's \<open>/\<close> and \<open>%\<close> on \<open>int\<close> truncate towards zero; division by zero is handled by
  the caller, where it is undefined behaviour.\<close>

definition c_div :: "int \<Rightarrow> int \<Rightarrow> int" where
  "c_div a b = sgn a * sgn b * (\<bar>a\<bar> div \<bar>b\<bar>)"

definition c_mod :: "int \<Rightarrow> int \<Rightarrow> int" where
  "c_mod a b = a - b * c_div a b"

section \<open>The data model\<close>

text \<open>
  The context structures are declared in headers outside the sources; the records hold
  the fields that \<open>WSPRbeacon.c\<close> reads and writes. A pointer is an \<open>option\<close>
  (\<open>None\<close> is \<open>NULL\<close>), and the object it points to is nested in place: no claim
  depends on two contexts sharing one oscillator or one time reference. The only state
  that is shared by construction, the function-level \<open>static int itx_trigger\<close>, lives
  in the \<open>machine\<close> record below and not in a context.
\<close>

record GPStimeData =
  u32_nmea_gprmc_count :: u32
  u8_is_solution_active :: u8
  u64_sysclk_nmea_last :: u64
  u32_utime_nmea_last :: u32

record GPStimeContext =
  time_data :: GPStimeData

record PioDco =
  pGPStime :: "GPStimeContext option"

text \<open>The type of the write position \<open>_ix_input\<close> is declared in \<open>TxChannel.h\<close>, outside
  the sources, and its name carries no width: it is the parameter \<open>'ix\<close>, instantiated
  by the functions below with an unsigned machine integer \<open>'w word\<close> of any width.\<close>

record 'ix TxChannelContext =
  ix_input :: 'ix
  pbyte_buffer :: "u8 list"
  p_oscillator :: "PioDco option"
  u32_dialfreqhz :: u32
  i_tx_gpio :: int

record TxSched =
  u8_tx_GPS_past_time :: u8
  u8_tx_slot_skip :: u8

record 'ix WSPRbeaconContext =
  pu8_callsign :: "u8 list"
  pu8_locator :: "u8 list"
  u8_txpower :: u8
  pu8_outbuf :: "u8 list"
  pTX :: "'ix TxChannelContext option"
  txSched :: TxSched

text \<open>
  Every call that leaves \<open>WSPRbeacon.c\<close> is recorded, in program order, as an event:
  \<open>StampPrintf\<close> (with its format string), \<open>wspr_encode\<close>, \<open>PioDCOStart\<close>,
  \<open>sleep_ms\<close>, \<open>memcpy\<close> (the handoff into the transmit channel) and \<open>PioDCOStop\<close>.
\<close>

datatype event =
  EvPrint string
  | EvEncode
  | EvDCOStart
  | EvSleepMs nat
  | EvMemcpy nat
  | EvDCOStop

record machine =
  itx_trigger :: int
  trace :: "event list"

text \<open>A failed \<open>assert_\<close> aborts; dereferencing \<open>NULL\<close> and \<open>%\<close> by zero are undefined
  behaviour. Each is a fault that ends the call, with the machine as it was then.\<close>

datatype fault = AssertFailed | NullDeref | DivByZero

datatype 'c outcome =
  is_Return: Return (ret: int) (mach: machine) (cont: 'c)
  | is_Fault: Fault (flt: fault) (mach: machine)

definition emit :: "event \<Rightarrow> machine \<Rightarrow> machine" where
  "emit e m = m\<lparr>trace := trace m @ [e]\<rparr>"

text \<open>\<open>memcpy(dst, src, n)\<close> on byte arrays that hold at least \<open>n\<close> bytes each.\<close>

definition memcpy :: "u8 list \<Rightarrow> u8 list \<Rightarrow> nat \<Rightarrow> u8 list" where
  "memcpy dst src n = take n src @ drop n dst"

text \<open>The encoder \<open>wspr_encode(callsign, locator, power, outbuf)\<close> is outside the sources:
  it is a parameter, a function from the identity fields and the old buffer to the new
  buffer.\<close>

type_synonym encoder = "u8 list \<Rightarrow> u8 list \<Rightarrow> u8 \<Rightarrow> u8 list \<Rightarrow> u8 list"

section \<open>The operations\<close>

definition WSPRbeaconCreatePacket ::
  "encoder \<Rightarrow> 'ix WSPRbeaconContext option \<Rightarrow> machine \<Rightarrow> 'ix WSPRbeaconContext outcome" where
  "WSPRbeaconCreatePacket enc pctx m =
     (case pctx of
        None \<Rightarrow> Fault AssertFailed m
      | Some c \<Rightarrow>
          Return 0 (emit EvEncode m)
            (c\<lparr>pu8_outbuf := enc (pu8_callsign c) (pu8_locator c) (u8_txpower c) (pu8_outbuf c)\<rparr>))"

definition WSPRbeaconSendPacket ::
  "('w::len) word WSPRbeaconContext option \<Rightarrow> machine \<Rightarrow> 'w word WSPRbeaconContext outcome" where
  "WSPRbeaconSendPacket pctx m =
     (case pctx of
        None \<Rightarrow> Fault AssertFailed m
      | Some c \<Rightarrow>
          (case pTX c of
             None \<Rightarrow> Fault AssertFailed m
           | Some tx \<Rightarrow>
               if \<not> (of_nat (1100 * kHz) < u32_dialfreqhz tx) then Fault AssertFailed m
               else
                 Return 0 (emit (EvMemcpy WSPR_SYMBOL_COUNT) m)
                   (c\<lparr>pTX := Some (tx\<lparr>pbyte_buffer :=
                                        memcpy (pbyte_buffer tx) (pu8_outbuf c) WSPR_SYMBOL_COUNT,
                                      ix_input := ix_input tx + of_nat WSPR_SYMBOL_COUNT\<rparr>)\<rparr>)))"

text \<open>\<open>pctx->_pTX->_p_oscillator->_pGPStime->_time_data\<close>: three unchecked
  dereferences.\<close>

definition gps_time_data :: "'ix WSPRbeaconContext \<Rightarrow> GPStimeData option" where
  "gps_time_data c =
     (case pTX c of
        None \<Rightarrow> None
      | Some tx \<Rightarrow>
          (case p_oscillator tx of
             None \<Rightarrow> None
           | Some dco \<Rightarrow>
               (case pGPStime dco of
                  None \<Rightarrow> None
                | Some g \<Rightarrow> Some (time_data g))))"

text \<open>The locals of \<open>WSPRbeaconTxScheduler\<close>, each as the source computes it.
  \<open>u64tmnow\<close> is the value \<open>GetUptime64()\<close> returned.\<close>

definition u64_GPS_last_age_sec :: "u64 \<Rightarrow> GPStimeData \<Rightarrow> u64" where
  "u64_GPS_last_age_sec u64tmnow td = (u64tmnow - u64_sysclk_nmea_last td) div 1000000"

definition is_GPS_active :: "GPStimeData \<Rightarrow> u32" where
  "is_GPS_active td = ucast (u8_is_solution_active td)"

definition is_GPS_override :: "TxSched \<Rightarrow> u32" where
  "is_GPS_override s = (if uint (u8_tx_GPS_past_time s) = YES then 1 else 0)"

text \<open>The condition of the second \<open>if\<close>: the age, a \<open>uint64_t\<close>, is compared with
  \<open>2 * HOUR\<close> as an unsigned 64-bit value.\<close>

definition gps_eligible :: "u32 \<Rightarrow> u32 \<Rightarrow> u64 \<Rightarrow> bool" where
  "gps_eligible active override age \<longleftrightarrow>
     active \<noteq> 0 \<or> (override \<noteq> 0 \<and> age < of_nat (2 * HOUR))"

text \<open>The sum is taken in 64 bits (the \<open>uint32_t\<close> operand is converted) and stored in a
  \<open>uint32_t\<close>.\<close>

definition u32_unixtime_now :: "GPStimeData \<Rightarrow> u64 \<Rightarrow> u32" where
  "u32_unixtime_now td age = ucast ((ucast (u32_utime_nmea_last td) :: u64) + age)"

definition isec_of_hour :: "u32 \<Rightarrow> int" where
  "isec_of_hour t = uint (t mod of_nat HOUR)"

definition islot_number :: "u32 \<Rightarrow> int" where
  "islot_number t = c_div (isec_of_hour t) (int (2 * MINUTE))"

definition WSPRbeaconTxScheduler ::
  "encoder \<Rightarrow> u64 \<Rightarrow> ('w::len) word WSPRbeaconContext option \<Rightarrow> machine
     \<Rightarrow> 'w word WSPRbeaconContext outcome" where
  "WSPRbeaconTxScheduler enc u64tmnow pctx m =
     (case pctx of
        None \<Rightarrow> Fault AssertFailed m
      | Some c \<Rightarrow>
          (case gps_time_data c of
             None \<Rightarrow> Fault NullDeref m
           | Some td \<Rightarrow>
               let is_GPS_available = u32_nmea_gprmc_count td;
                   age = u64_GPS_last_age_sec u64tmnow td;
                   m1 = emit (EvPrint ''%llu %lu %lu %lu %llu'') m
               in
                 if is_GPS_available = 0
                 then Return (- 1) (emit (EvPrint ''Waiting for GPS receiver...'') m1) c
                 else if gps_eligible (is_GPS_active td) (is_GPS_override (txSched c)) age
                 then
                   (let islot = islot_number (u32_unixtime_now td age);
                        skip = u8_tx_slot_skip (txSched c)
                    in
                      if skip = 0 then Fault DivByZero m1
                      else if c_mod islot (uint skip) = ZERO
                      then
                        (if itx_trigger m1 = 0
                         then
                           (case WSPRbeaconCreatePacket enc (Some c)
                                   (emit (EvPrint ''Start transmission.'') (m1\<lparr>itx_trigger := 1\<rparr>)) of
                              Fault f mf \<Rightarrow> Fault f mf
                            | Return r2 m2 c2 \<Rightarrow>
                                (case WSPRbeaconSendPacket (Some c2)
                                        (emit (EvSleepMs 100) (emit EvDCOStart m2)) of
                                   Fault f mf \<Rightarrow> Fault f mf
                                 | Return r3 m3 c3 \<Rightarrow> Return 0 m3 c3))
                         else Return 0 m1 c)
                      else
                        Return 0
                          (emit EvDCOStop
                             (emit (EvPrint ''NO transmission slot.'') (m1\<lparr>itx_trigger := 0\<rparr>)))
                          c)
                 else Return 0 m1 c))"

section \<open>Observations of a poll\<close>

text \<open>The events one call added to the trace, and the actions among them: every event
  but the diagnostic output of \<open>StampPrintf\<close>.\<close>

definition is_print :: "event \<Rightarrow> bool" where
  "is_print e = (case e of EvPrint s \<Rightarrow> True | _ \<Rightarrow> False)"

definition actions :: "event list \<Rightarrow> event list" where
  "actions evs = filter (\<lambda>e. \<not> is_print e) evs"

definition new_events :: "machine \<Rightarrow> 'c outcome \<Rightarrow> event list" where
  "new_events m out = drop (length (trace m)) (trace (mach out))"

text \<open>The calls of the trigger path after its print: \<open>wspr_encode\<close>, \<open>PioDCOStart\<close>,
  \<open>sleep_ms(100)\<close> and the \<open>memcpy\<close> of SendPacket.\<close>

definition tx_events :: "event list" where
  "tx_events = [EvEncode, EvDCOStart, EvSleepMs 100, EvMemcpy WSPR_SYMBOL_COUNT]"

text \<open>The condition of the second \<open>if\<close> and the local \<open>islot_modulo\<close>, as functions of
  what a poll reads: the context, the time data and the clock value.\<close>

definition eligible :: "'ix WSPRbeaconContext \<Rightarrow> GPStimeData \<Rightarrow> u64 \<Rightarrow> bool" where
  "eligible c td u64tmnow =
     gps_eligible (is_GPS_active td) (is_GPS_override (txSched c)) (u64_GPS_last_age_sec u64tmnow td)"

definition islot_modulo :: "'ix WSPRbeaconContext \<Rightarrow> GPStimeData \<Rightarrow> u64 \<Rightarrow> int" where
  "islot_modulo c td u64tmnow =
     c_mod (islot_number (u32_unixtime_now td (u64_GPS_last_age_sec u64tmnow td)))
       (uint (u8_tx_slot_skip (txSched c)))"

text \<open>The quantities of the scheduling decision under the names the specification gives
  them, each read off the fields and locals of the source as numbers and truth values.\<close>

definition fixEverReceived :: "GPStimeData \<Rightarrow> nat" where
  "fixEverReceived td = unat (u32_nmea_gprmc_count td)"

definition solutionActive :: "GPStimeData \<Rightarrow> bool" where
  "solutionActive td \<longleftrightarrow> u8_is_solution_active td \<noteq> 0"

definition overrideEnabled :: "'ix WSPRbeaconContext \<Rightarrow> bool" where
  "overrideEnabled c \<longleftrightarrow> uint (u8_tx_GPS_past_time (txSched c)) = YES"

definition ageSeconds :: "u64 \<Rightarrow> GPStimeData \<Rightarrow> nat" where
  "ageSeconds u64tmnow td = unat (u64_GPS_last_age_sec u64tmnow td)"

definition slotIndex :: "u64 \<Rightarrow> GPStimeData \<Rightarrow> int" where
  "slotIndex u64tmnow td = islot_number (u32_unixtime_now td (u64_GPS_last_age_sec u64tmnow td))"

definition skipFactor :: "'ix WSPRbeaconContext \<Rightarrow> int" where
  "skipFactor c = uint (u8_tx_slot_skip (txSched c))"

text \<open>A poll triggers a transmission when it returns and its actions are exactly the
  trigger sequence.\<close>

definition triggered :: "machine \<Rightarrow> 'c outcome \<Rightarrow> bool" where
  "triggered m out \<longleftrightarrow> is_Return out \<and> actions (new_events m out) = tx_events"

text \<open>Example inputs, used where a theorem is applied to a concrete poll: an encoder, a
  time reference with five fixes received whose last fix is on the hour, a transmit
  channel, a beacon context and a machine with an empty trace.\<close>

definition demo_encoder :: encoder where
  "demo_encoder callsign locator dbm outbuf = callsign @ locator @ [dbm] @ drop 9 outbuf"

definition demo_time_data :: "u8 \<Rightarrow> GPStimeData" where
  "demo_time_data active =
     \<lparr>u32_nmea_gprmc_count = 5, u8_is_solution_active = active,
      u64_sysclk_nmea_last = 1000000, u32_utime_nmea_last = 1700002800\<rparr>"

definition demo_channel :: "GPStimeData \<Rightarrow> u32 \<Rightarrow> 'ix \<Rightarrow> 'ix TxChannelContext" where
  "demo_channel td freq ix =
     \<lparr>ix_input = ix, pbyte_buffer = replicate 256 0,
      p_oscillator = Some \<lparr>pGPStime = Some \<lparr>time_data = td\<rparr>\<rparr>,
      u32_dialfreqhz = freq, i_tx_gpio = 6\<rparr>"

definition demo_context ::
  "GPStimeData \<Rightarrow> u8 \<Rightarrow> u8 \<Rightarrow> u32 \<Rightarrow> 'ix \<Rightarrow> 'ix WSPRbeaconContext" where
  "demo_context td past skip freq ix =
     \<lparr>pu8_callsign = [0x52, 0x32, 0x42, 0x44, 0x59], pu8_locator = [0x4B, 0x4F, 0x38],
      u8_txpower = 10, pu8_outbuf = replicate 256 0,
      pTX = Some (demo_channel td freq ix),
      txSched = \<lparr>u8_tx_GPS_past_time = past, u8_tx_slot_skip = skip\<rparr>\<rparr>"

definition idle_machine :: "int \<Rightarrow> machine" where
  "idle_machine latch = \<lparr>itx_trigger = latch, trace = []\<rparr>"

text \<open>Modelled from the spec: \<open>PioDCOStart\<close> and \<open>PioDCOStop\<close> belong to the oscillator
  driver, which is not part of the sources; they start and stop the RF-generation
  hardware. \<open>dco_running b es\<close> tells whether the oscillator runs after the events \<open>es\<close> when
  \<open>b\<close> tells whether it ran before; no other call of \<open>WSPRbeacon.c\<close> touches it.\<close>

fun dco_running :: "bool \<Rightarrow> event list \<Rightarrow> bool" where
  "dco_running b [] = b"
| "dco_running b (EvDCOStart # es) = dco_running True es"
| "dco_running b (EvDCOStop # es) = dco_running False es"
| "dco_running b (EvPrint s # es) = dco_running b es"
| "dco_running b (EvEncode # es) = dco_running b es"
| "dco_running b (EvSleepMs n # es) = dco_running b es"
| "dco_running b (EvMemcpy n # es) = dco_running b es"

text \<open>The write position of a context's transmit channel, read as a number.\<close>

definition write_position :: "('w::len) word WSPRbeaconContext \<Rightarrow> nat option" where
  "write_position c = map_option (\<lambda>tx. unat (ix_input tx)) (pTX c)"

text \<open>A poll observes a slot when it reaches the slot decision: the pointers are valid, a
  fix was received, the reference is eligible and the skip factor is nonzero. The slot
  qualifies when the slot index is a multiple of the skip factor.\<close>

definition observes_slot :: "'ix WSPRbeaconContext \<Rightarrow> GPStimeData \<Rightarrow> u64 \<Rightarrow> bool" where
  "observes_slot c td u64tmnow \<longleftrightarrow>
     gps_time_data c = Some td \<and> fixEverReceived td \<noteq> 0 \<and>
     (solutionActive td \<or> (overrideEnabled c \<and> ageSeconds u64tmnow td < 7200)) \<and>
     skipFactor c \<noteq> 0"

definition qualifying :: "'ix WSPRbeaconContext \<Rightarrow> GPStimeData \<Rightarrow> u64 \<Rightarrow> bool" where
  "qualifying c td u64tmnow \<longleftrightarrow> slotIndex u64tmnow td mod skipFactor c = 0"



section \<open>The slot index\<close>

lemma c_div_nonneg: "0 \<le> a \<Longrightarrow> 0 < b \<Longrightarrow> c_div a b = a div b"
  by (cases "a = 0") (simp_all add: c_div_def)

lemma c_mod_nonneg: "0 \<le> a \<Longrightarrow> 0 < b \<Longrightarrow> c_mod a b = a mod b"
  by (simp add: c_mod_def c_div_nonneg minus_mult_div_eq_mod)

lemma isec_of_hour_eq: "isec_of_hour t = uint t mod 3600"
  by (simp add: isec_of_hour_def HOUR_def uint_mod)

lemma islot_number_eq: "islot_number t = (uint t mod 3600) div 120"
  by (simp add: islot_number_def MINUTE_def isec_of_hour_eq c_div_nonneg)

text \<open>
  Claim C4. For every unix time \<open>t\<close> (a \<open>uint32_t\<close>), the slot index the scheduler
  computes is \<open>(t mod 3600) div 120\<close> and lies between 0 and 29.
\<close>

theorem slot_index_range:
  "islot_number t = (uint t mod 3600) div 120 \<and> 0 \<le> islot_number t \<and> islot_number t \<le> 29"
proof -
  have "uint t mod 3600 < 3600" by simp
  then have "(uint t mod 3600) div 120 \<le> 29" by simp
  moreover have "0 \<le> (uint t mod 3600) div 120" by simp
  ultimately show ?thesis by (simp add: islot_number_eq)
qed

theorem slot_index_range_witness:
  "islot_number 1700000000 = 6 \<and> 0 \<le> islot_number 1700000000 \<and> islot_number 1700000000 \<le> 29"
  using slot_index_range [of 1700000000] by simp

section \<open>The cases of the scheduler\<close>

lemma sched_null: "WSPRbeaconTxScheduler enc now None m = Fault AssertFailed m"
  by (simp add: WSPRbeaconTxScheduler_def)

lemma sched_no_time_data:
  "gps_time_data c = None \<Longrightarrow> WSPRbeaconTxScheduler enc now (Some c) m = Fault NullDeref m"
  by (simp add: WSPRbeaconTxScheduler_def)

lemma sched_unavailable:
  "gps_time_data c = Some td \<Longrightarrow> u32_nmea_gprmc_count td = 0 \<Longrightarrow>
   WSPRbeaconTxScheduler enc now (Some c) m =
     Return (- 1) (emit (EvPrint ''Waiting for GPS receiver...'')
                     (emit (EvPrint ''%llu %lu %lu %lu %llu'') m)) c"
  by (simp add: WSPRbeaconTxScheduler_def)

lemma sched_not_eligible:
  "gps_time_data c = Some td \<Longrightarrow> u32_nmea_gprmc_count td \<noteq> 0 \<Longrightarrow> \<not> eligible c td now \<Longrightarrow>
   WSPRbeaconTxScheduler enc now (Some c) m =
     Return 0 (emit (EvPrint ''%llu %lu %lu %lu %llu'') m) c"
  by (simp add: WSPRbeaconTxScheduler_def eligible_def)

lemma sched_skip_zero:
  "gps_time_data c = Some td \<Longrightarrow> u32_nmea_gprmc_count td \<noteq> 0 \<Longrightarrow> eligible c td now \<Longrightarrow>
   u8_tx_slot_skip (txSched c) = 0 \<Longrightarrow>
   WSPRbeaconTxScheduler enc now (Some c) m =
     Fault DivByZero (emit (EvPrint ''%llu %lu %lu %lu %llu'') m)"
  by (simp add: WSPRbeaconTxScheduler_def eligible_def)

lemma sched_latched:
  "gps_time_data c = Some td \<Longrightarrow> u32_nmea_gprmc_count td \<noteq> 0 \<Longrightarrow> eligible c td now \<Longrightarrow>
   u8_tx_slot_skip (txSched c) \<noteq> 0 \<Longrightarrow> islot_modulo c td now = 0 \<Longrightarrow> itx_trigger m \<noteq> 0 \<Longrightarrow>
   WSPRbeaconTxScheduler enc now (Some c) m =
     Return 0 (emit (EvPrint ''%llu %lu %lu %lu %llu'') m) c"
  by (simp add: WSPRbeaconTxScheduler_def eligible_def islot_modulo_def ZERO_def emit_def)

lemma sched_non_slot:
  "gps_time_data c = Some td \<Longrightarrow> u32_nmea_gprmc_count td \<noteq> 0 \<Longrightarrow> eligible c td now \<Longrightarrow>
   u8_tx_slot_skip (txSched c) \<noteq> 0 \<Longrightarrow> islot_modulo c td now \<noteq> 0 \<Longrightarrow>
   WSPRbeaconTxScheduler enc now (Some c) m =
     Return 0 (emit EvDCOStop (emit (EvPrint ''NO transmission slot.'')
                 ((emit (EvPrint ''%llu %lu %lu %lu %llu'') m)\<lparr>itx_trigger := 0\<rparr>))) c"
  by (simp add: WSPRbeaconTxScheduler_def eligible_def islot_modulo_def ZERO_def)

lemma sched_trigger:
  "gps_time_data c = Some td \<Longrightarrow> u32_nmea_gprmc_count td \<noteq> 0 \<Longrightarrow> eligible c td now \<Longrightarrow>
   u8_tx_slot_skip (txSched c) \<noteq> 0 \<Longrightarrow> islot_modulo c td now = 0 \<Longrightarrow> itx_trigger m = 0 \<Longrightarrow>
   WSPRbeaconTxScheduler enc now (Some c) m =
     (case WSPRbeaconSendPacket
             (Some (c\<lparr>pu8_outbuf := enc (pu8_callsign c) (pu8_locator c) (u8_txpower c) (pu8_outbuf c)\<rparr>))
             (m\<lparr>itx_trigger := 1,
                trace := trace m @ [EvPrint ''%llu %lu %lu %lu %llu'', EvPrint ''Start transmission.'',
                                    EvEncode, EvDCOStart, EvSleepMs 100]\<rparr>) of
        Fault f mf \<Rightarrow> Fault f mf
      | Return r3 m3 c3 \<Rightarrow> Return 0 m3 c3)"
  by (simp add: WSPRbeaconTxScheduler_def eligible_def islot_modulo_def ZERO_def emit_def
      WSPRbeaconCreatePacket_def)

lemma is_GPS_active_nonzero: "is_GPS_active td \<noteq> 0 \<longleftrightarrow> solutionActive td"
proof -
  have "uint (ucast (u8_is_solution_active td) :: u32) = uint (u8_is_solution_active td)"
    by (rule uint_up_ucast) (simp add: is_up)
  then have "(ucast (u8_is_solution_active td) :: u32) = 0 \<longleftrightarrow> u8_is_solution_active td = 0"
    by (metis uint_0_iff)
  then show ?thesis by (simp add: is_GPS_active_def solutionActive_def)
qed

lemma is_GPS_override_nonzero: "is_GPS_override (txSched c) \<noteq> 0 \<longleftrightarrow> overrideEnabled c"
  by (simp add: is_GPS_override_def overrideEnabled_def)

lemma age_bound: "u64_GPS_last_age_sec now td < of_nat (2 * HOUR) \<longleftrightarrow> ageSeconds now td < 7200"
  by (simp add: HOUR_def ageSeconds_def word_less_nat_alt)

lemma eligible_iff:
  "eligible c td now \<longleftrightarrow> solutionActive td \<or> (overrideEnabled c \<and> ageSeconds now td < 7200)"
  unfolding eligible_def gps_eligible_def
  by (simp only: is_GPS_active_nonzero is_GPS_override_nonzero age_bound)

lemma islot_number_nonneg: "0 \<le> islot_number t"
  by (simp add: islot_number_eq)

lemma skipFactor_pos: "u8_tx_slot_skip (txSched c) \<noteq> 0 \<longleftrightarrow> 0 < skipFactor c"
  by (simp add: skipFactor_def word_greater_zero_iff uint_0_iff order_less_le)

lemma islot_modulo_eq:
  "0 < skipFactor c \<Longrightarrow> islot_modulo c td now = slotIndex now td mod skipFactor c"
  unfolding islot_modulo_def slotIndex_def skipFactor_def
  by (rule c_mod_nonneg) (simp_all add: islot_number_nonneg)

lemma demo_gps_time_data: "gps_time_data (demo_context td past skip freq ix) = Some td"
  by (simp add: gps_time_data_def demo_context_def demo_channel_def)

lemma demo_pTX: "pTX (demo_context td past skip freq ix) = Some (demo_channel td freq ix)"
  by (simp add: demo_context_def)

lemma demo_freq: "u32_dialfreqhz (demo_channel td freq ix) = freq"
  by (simp add: demo_channel_def)

lemma demo_ix: "ix_input (demo_channel td freq ix) = ix"
  by (simp add: demo_channel_def)

lemma demo_skip: "u8_tx_slot_skip (txSched (demo_context td past skip freq ix)) = skip"
  by (simp add: demo_context_def)

lemma demo_skipFactor: "skipFactor (demo_context td past skip freq ix) = uint skip"
  by (simp add: skipFactor_def demo_skip)

lemma demo_override: "overrideEnabled (demo_context td past skip freq ix) \<longleftrightarrow> past = 1"
  by (simp add: overrideEnabled_def demo_context_def YES_def word_uint_eq_iff)

lemma demo_count: "u32_nmea_gprmc_count (demo_time_data a) = 5"
  by (simp add: demo_time_data_def)

lemma demo_fix: "fixEverReceived (demo_time_data a) = 5"
  by (simp add: fixEverReceived_def demo_count)

lemma demo_active: "solutionActive (demo_time_data a) \<longleftrightarrow> a \<noteq> 0"
  by (simp add: solutionActive_def demo_time_data_def)

lemma actions_simps:
  "actions [] = []"
  "actions (EvPrint s # es) = actions es"
  "actions (EvEncode # es) = EvEncode # actions es"
  "actions (EvDCOStart # es) = EvDCOStart # actions es"
  "actions (EvSleepMs n # es) = EvSleepMs n # actions es"
  "actions (EvMemcpy n # es) = EvMemcpy n # actions es"
  "actions (EvDCOStop # es) = EvDCOStop # actions es"
  by (simp_all add: actions_def is_print_def)

lemma new_events_emit1: "new_events m (Return r (emit e m) c) = [e]"
  by (simp add: new_events_def emit_def)

lemma send_ok:
  "pTX c = Some tx \<Longrightarrow> 1100000 < u32_dialfreqhz tx \<Longrightarrow>
   WSPRbeaconSendPacket (Some c) m =
     Return 0 (emit (EvMemcpy WSPR_SYMBOL_COUNT) m)
       (c\<lparr>pTX := Some (tx\<lparr>pbyte_buffer := memcpy (pbyte_buffer tx) (pu8_outbuf c) WSPR_SYMBOL_COUNT,
                          ix_input := ix_input tx + of_nat WSPR_SYMBOL_COUNT\<rparr>)\<rparr>)"
  by (simp add: WSPRbeaconSendPacket_def kHz_def)

lemma send_abort:
  "pTX c = Some tx \<Longrightarrow> u32_dialfreqhz tx \<le> 1100000 \<Longrightarrow>
   WSPRbeaconSendPacket (Some c) m = Fault AssertFailed m"
  by (simp add: WSPRbeaconSendPacket_def kHz_def not_less)

lemma sched_trigger_ok:
  assumes "gps_time_data c = Some td" "u32_nmea_gprmc_count td \<noteq> 0" "eligible c td now"
    "u8_tx_slot_skip (txSched c) \<noteq> 0" "islot_modulo c td now = 0" "itx_trigger m = 0"
    "pTX c = Some tx" "1100000 < u32_dialfreqhz tx"
  shows "WSPRbeaconTxScheduler enc now (Some c) m =
     Return 0
       (m\<lparr>itx_trigger := 1,
          trace := trace m @ [EvPrint ''%llu %lu %lu %lu %llu'', EvPrint ''Start transmission.'',
                              EvEncode, EvDCOStart, EvSleepMs 100, EvMemcpy WSPR_SYMBOL_COUNT]\<rparr>)
       (c\<lparr>pu8_outbuf := enc (pu8_callsign c) (pu8_locator c) (u8_txpower c) (pu8_outbuf c),
          pTX := Some (tx\<lparr>pbyte_buffer :=
                            memcpy (pbyte_buffer tx)
                              (enc (pu8_callsign c) (pu8_locator c) (u8_txpower c) (pu8_outbuf c))
                              WSPR_SYMBOL_COUNT,
                          ix_input := ix_input tx + of_nat WSPR_SYMBOL_COUNT\<rparr>)\<rparr>)"
proof -
  let ?c2 = "c\<lparr>pu8_outbuf := enc (pu8_callsign c) (pu8_locator c) (u8_txpower c) (pu8_outbuf c)\<rparr>"
  have tx2: "pTX ?c2 = Some tx" using assms(7) by simp
  show ?thesis
    by (simp add: sched_trigger [OF assms(1-6)] send_ok [OF tx2 assms(8)] emit_def)
qed

lemma sched_trigger_abort:
  assumes "gps_time_data c = Some td" "u32_nmea_gprmc_count td \<noteq> 0" "eligible c td now"
    "u8_tx_slot_skip (txSched c) \<noteq> 0" "islot_modulo c td now = 0" "itx_trigger m = 0"
    "pTX c = Some tx" "u32_dialfreqhz tx \<le> 1100000"
  shows "WSPRbeaconTxScheduler enc now (Some c) m =
     Fault AssertFailed
       (m\<lparr>itx_trigger := 1,
          trace := trace m @ [EvPrint ''%llu %lu %lu %lu %llu'', EvPrint ''Start transmission.'',
                              EvEncode, EvDCOStart, EvSleepMs 100]\<rparr>)"
proof -
  let ?c2 = "c\<lparr>pu8_outbuf := enc (pu8_callsign c) (pu8_locator c) (u8_txpower c) (pu8_outbuf c)\<rparr>"
  have tx2: "pTX ?c2 = Some tx" using assms(7) by simp
  show ?thesis
    by (simp add: sched_trigger [OF assms(1-6)] send_abort [OF tx2 assms(8)])
qed

lemma gps_time_data_pTX: "gps_time_data c = Some td \<Longrightarrow> \<exists>tx. pTX c = Some tx"
  by (auto simp: gps_time_data_def split: option.splits)

lemma new_events_append:
  "trace m' = trace m @ evs \<Longrightarrow> new_events m (Return r m' c) = evs"
  "trace m' = trace m @ evs \<Longrightarrow> new_events m (Fault f m') = evs"
  by (simp_all add: new_events_def)

lemma poll_cases:
  obtains
    (unavailable) "u32_nmea_gprmc_count td = 0"
  | (ineligible) "u32_nmea_gprmc_count td \<noteq> 0" "\<not> eligible c td now"
  | (skip_zero) "u32_nmea_gprmc_count td \<noteq> 0" "eligible c td now" "u8_tx_slot_skip (txSched c) = 0"
  | (non_slot) "u32_nmea_gprmc_count td \<noteq> 0" "eligible c td now"
      "u8_tx_slot_skip (txSched c) \<noteq> 0" "islot_modulo c td now \<noteq> 0"
  | (latched) "u32_nmea_gprmc_count td \<noteq> 0" "eligible c td now"
      "u8_tx_slot_skip (txSched c) \<noteq> 0" "islot_modulo c td now = 0" "itx_trigger m \<noteq> 0"
  | (trigger) "u32_nmea_gprmc_count td \<noteq> 0" "eligible c td now"
      "u8_tx_slot_skip (txSched c) \<noteq> 0" "islot_modulo c td now = 0" "itx_trigger m = 0"
  by blast

lemma fixEverReceived_zero: "fixEverReceived td = 0 \<longleftrightarrow> u32_nmea_gprmc_count td = 0"
  by (simp add: fixEverReceived_def unat_eq_0)

section \<open>When a poll triggers\<close>

text \<open>
  Claim C1, amended. For every poll of a context whose pointers are valid, whose
  effective frequency exceeds 1,100,000 Hz and whose skip factor is nonzero, a
  transmission is triggered (encode, hardware start, settle, send) if and only if the
  fix-ever-received counter is nonzero, the latch is not set,
  \<open>slotIndex mod skipFactor = 0\<close>, and \<open>solutionActive\<close> or (\<open>overrideEnabled\<close> and
  \<open>ageSeconds < 7200\<close>). Nothing is said of a poll with skip factor 0, where the source
  takes a remainder by zero.
\<close>

theorem tx_trigger_iff:
  assumes td: "gps_time_data c = Some td"
    and tx: "pTX c = Some tx"
    and freq: "1100000 < u32_dialfreqhz tx"
    and skip: "skipFactor c \<noteq> 0"
  shows "triggered m (WSPRbeaconTxScheduler enc now (Some c) m) \<longleftrightarrow>
           fixEverReceived td \<noteq> 0 \<and> itx_trigger m = 0 \<and>
           slotIndex now td mod skipFactor c = 0 \<and>
           (solutionActive td \<or> (overrideEnabled c \<and> ageSeconds now td < 7200))"
proof (cases rule: poll_cases [where td = td and c = c and now = now and m = m])
  case unavailable
  then show ?thesis
    by (simp add: sched_unavailable [OF td] triggered_def new_events_def emit_def
        actions_simps tx_events_def fixEverReceived_zero)
next
  case ineligible
  then show ?thesis
    by (simp add: sched_not_eligible [OF td] triggered_def new_events_def emit_def
        actions_simps tx_events_def eligible_iff)
next
  case skip_zero
  with skip show ?thesis by (simp add: skipFactor_def)
next
  case non_slot
  then have "0 < skipFactor c" by (simp add: skipFactor_pos)
  with non_slot show ?thesis
    by (simp add: sched_non_slot [OF td] triggered_def new_events_def emit_def
        actions_simps tx_events_def islot_modulo_eq)
next
  case latched
  then show ?thesis
    by (simp add: sched_latched [OF td] triggered_def new_events_def emit_def
        actions_simps tx_events_def)
next
  case trigger
  then have pos: "0 < skipFactor c" by (simp add: skipFactor_pos)
  have "triggered m (WSPRbeaconTxScheduler enc now (Some c) m)"
    by (simp add: sched_trigger_ok [OF td trigger tx freq] triggered_def new_events_def
        actions_simps tx_events_def)
  moreover have "slotIndex now td mod skipFactor c = 0"
    using trigger(4) pos by (simp add: islot_modulo_eq)
  ultimately show ?thesis
    using trigger pos by (simp add: fixEverReceived_zero eligible_iff [symmetric])
qed

lemma demo_age: "u64_GPS_last_age_sec 6000000 (demo_time_data a) = 5"
  by (simp add: u64_GPS_last_age_sec_def demo_time_data_def)

lemma demo_unix: "u32_unixtime_now (demo_time_data a) 5 = 1700002805"
  by (simp add: u32_unixtime_now_def demo_time_data_def)

lemma demo_slot: "slotIndex 6000000 (demo_time_data a) = 0"
  by (simp add: slotIndex_def demo_age demo_unix islot_number_eq)

lemma demo_slot2: "slotIndex 126000000 (demo_time_data a) = 1"
  by (simp add: slotIndex_def u64_GPS_last_age_sec_def u32_unixtime_now_def demo_time_data_def islot_number_eq)

theorem tx_trigger_iff_witness:
  "triggered (idle_machine 0)
     (WSPRbeaconTxScheduler demo_encoder 6000000
        (Some (demo_context (demo_time_data 1) 0 3 7040100 (0 :: 8 word))) (idle_machine 0))"
proof -
  have freq: "1100000 < u32_dialfreqhz (demo_channel (demo_time_data 1) 7040100 (0 :: 8 word))"
    by (simp add: demo_freq)
  have skip: "skipFactor (demo_context (demo_time_data 1) 0 3 7040100 (0 :: 8 word)) \<noteq> 0"
    by (simp add: demo_skipFactor)
  show ?thesis
    by (simp add: tx_trigger_iff [OF demo_gps_time_data demo_pTX freq skip] demo_fix demo_active
        demo_skipFactor demo_slot idle_machine_def)
qed

text \<open>The condition of claim C1 as stated holds on a poll inside a slot that has
  already triggered (latch set), and no transmission is triggered.\<close>

theorem tx_trigger_iff_counterexample:
  "slotIndex 6000000 (demo_time_data 1) mod
     skipFactor (demo_context (demo_time_data 1) 0 3 7040100 (0 :: 8 word)) = 0
   \<and> (solutionActive (demo_time_data 1)
      \<or> (overrideEnabled (demo_context (demo_time_data 1) 0 3 7040100 (0 :: 8 word))
         \<and> ageSeconds 6000000 (demo_time_data 1) < 7200))
   \<and> \<not> triggered (idle_machine 1)
         (WSPRbeaconTxScheduler demo_encoder 6000000
            (Some (demo_context (demo_time_data 1) 0 3 7040100 (0 :: 8 word))) (idle_machine 1))"
proof -
  let ?c = "demo_context (demo_time_data 1) 0 3 7040100 (0 :: 8 word)"
  let ?td = "demo_time_data 1"
  have td: "gps_time_data ?c = Some ?td" by (rule demo_gps_time_data)
  have act: "solutionActive ?td" by (simp add: demo_active)
  have el: "eligible ?c ?td 6000000" using act by (simp add: eligible_iff)
  have sk: "u8_tx_slot_skip (txSched ?c) \<noteq> 0" by (simp add: demo_skip)
  have sm: "islot_modulo ?c ?td 6000000 = 0"
    using sk by (simp add: islot_modulo_eq skipFactor_pos [symmetric] demo_slot)
  have "WSPRbeaconTxScheduler demo_encoder 6000000 (Some ?c) (idle_machine 1) =
          Return 0 (emit (EvPrint ''%llu %lu %lu %lu %llu'') (idle_machine 1)) ?c"
    by (rule sched_latched [OF td _ el sk sm]) (simp_all add: demo_count idle_machine_def)
  then have "\<not> triggered (idle_machine 1)
         (WSPRbeaconTxScheduler demo_encoder 6000000 (Some ?c) (idle_machine 1))"
    by (simp add: triggered_def new_events_emit1 actions_simps tx_events_def)
  then show ?thesis using act by (simp add: demo_slot)
qed

section \<open>The status a poll returns\<close>




lemma dco_running_append: "dco_running b (es @ es') = dco_running (dco_running b es) es'"
  by (induction b es rule: dco_running.induct) simp_all

section \<open>Polls on a reference that is not eligible\<close>

text \<open>
  Claim C10. When the fix-ever-received counter is nonzero but the reference is not
  eligible (not \<open>solutionActive\<close>, and not \<open>overrideEnabled\<close> with \<open>ageSeconds < 7200\<close>),
  Poll returns 0 and leaves the latch, the context and the oscillator as they were: its
  only event is the diagnostic print, so an oscillator started in an earlier qualifying
  slot is not stopped.
\<close>

theorem ineligible_poll_frame:
  assumes td: "gps_time_data c = Some td"
    and received: "fixEverReceived td \<noteq> 0"
    and inactive: "\<not> solutionActive td"
    and no_override: "\<not> (overrideEnabled c \<and> ageSeconds now td < 7200)"
  shows "ret (WSPRbeaconTxScheduler enc now (Some c) m) = 0
       \<and> cont (WSPRbeaconTxScheduler enc now (Some c) m) = c
       \<and> itx_trigger (mach (WSPRbeaconTxScheduler enc now (Some c) m)) = itx_trigger m
       \<and> actions (new_events m (WSPRbeaconTxScheduler enc now (Some c) m)) = []
       \<and> EvDCOStop \<notin> set (new_events m (WSPRbeaconTxScheduler enc now (Some c) m))
       \<and> dco_running b (trace (mach (WSPRbeaconTxScheduler enc now (Some c) m)))
           = dco_running b (trace m)"
proof -
  have ne: "\<not> eligible c td now"
    using inactive no_override by (simp add: eligible_iff)
  have cnt: "u32_nmea_gprmc_count td \<noteq> 0"
    using received by (simp add: fixEverReceived_zero)
  show ?thesis
    by (simp add: sched_not_eligible [OF td cnt ne] new_events_def emit_def actions_simps
        dco_running_append)
qed

lemma demo_eligible_active: "a \<noteq> 0 \<Longrightarrow> eligible (demo_context (demo_time_data a) past skip freq ix) (demo_time_data a) now"
  by (simp add: eligible_iff demo_active)

lemma demo_islot_modulo:
  "skip \<noteq> 0 \<Longrightarrow>
   islot_modulo (demo_context (demo_time_data a) past skip freq ix) (demo_time_data a) 6000000 = 0"
  by (simp add: islot_modulo_eq skipFactor_pos [symmetric] demo_skip demo_slot)

lemma demo_trigger:
  assumes "a \<noteq> 0" "skip \<noteq> 0" "1100000 < freq"
  shows "WSPRbeaconTxScheduler enc 6000000
           (Some (demo_context (demo_time_data a) past skip freq ix)) (idle_machine 0) =
         Return 0
           \<lparr>itx_trigger = 1,
            trace = [EvPrint ''%llu %lu %lu %lu %llu'', EvPrint ''Start transmission.'',
                     EvEncode, EvDCOStart, EvSleepMs 100, EvMemcpy WSPR_SYMBOL_COUNT]\<rparr>
           (cont (WSPRbeaconTxScheduler enc 6000000
              (Some (demo_context (demo_time_data a) past skip freq ix)) (idle_machine 0)))"
proof -
  let ?c = "demo_context (demo_time_data a) past skip freq ix"
  have sk: "u8_tx_slot_skip (txSched ?c) \<noteq> 0" using assms(2) by (simp add: demo_skip)
  have cnt: "u32_nmea_gprmc_count (demo_time_data a) \<noteq> 0" by (simp add: demo_count)
  have latch: "itx_trigger (idle_machine 0) = 0" by (simp add: idle_machine_def)
  have freq: "1100000 < u32_dialfreqhz (demo_channel (demo_time_data a) freq ix)"
    using assms(3) by (simp add: demo_freq)
  note eq = sched_trigger_ok [OF demo_gps_time_data cnt demo_eligible_active [OF assms(1)] sk
      demo_islot_modulo [OF assms(2)] latch demo_pTX freq]
  show ?thesis
    unfolding eq by (simp add: idle_machine_def)
qed

theorem ineligible_poll_frame_witness:
  "dco_running False
     (trace (mach (WSPRbeaconTxScheduler demo_encoder 6000000
        (Some (demo_context (demo_time_data 1) 0 3 7040100 (0 :: 8 word))) (idle_machine 0))))
   \<and> dco_running False
     (trace (mach (WSPRbeaconTxScheduler demo_encoder 7000000
        (Some (demo_context (demo_time_data 0) 0 3 7040100 (162 :: 8 word)))
        (mach (WSPRbeaconTxScheduler demo_encoder 6000000
           (Some (demo_context (demo_time_data 1) 0 3 7040100 (0 :: 8 word))) (idle_machine 0))))))
   \<and> itx_trigger
     (mach (WSPRbeaconTxScheduler demo_encoder 7000000
        (Some (demo_context (demo_time_data 0) 0 3 7040100 (162 :: 8 word)))
        (mach (WSPRbeaconTxScheduler demo_encoder 6000000
           (Some (demo_context (demo_time_data 1) 0 3 7040100 (0 :: 8 word))) (idle_machine 0))))) = 1"
proof -
  let ?m1 = "mach (WSPRbeaconTxScheduler demo_encoder 6000000
           (Some (demo_context (demo_time_data 1) 0 3 7040100 (0 :: 8 word))) (idle_machine 0))"
  have m1: "?m1 = \<lparr>itx_trigger = 1,
            trace = [EvPrint ''%llu %lu %lu %lu %llu'', EvPrint ''Start transmission.'',
                     EvEncode, EvDCOStart, EvSleepMs 100, EvMemcpy WSPR_SYMBOL_COUNT]\<rparr>"
    by (subst demo_trigger) simp_all
  have first: "dco_running False (trace ?m1)" "itx_trigger ?m1 = 1"
    by (simp_all add: m1)
  have received: "fixEverReceived (demo_time_data 0) \<noteq> 0" by (simp add: demo_fix)
  have inactive: "\<not> solutionActive (demo_time_data 0)" by (simp add: demo_active)
  have no_override: "\<not> (overrideEnabled (demo_context (demo_time_data 0) 0 3 7040100 (162 :: 8 word))
      \<and> ageSeconds 7000000 (demo_time_data 0) < 7200)"
    by (simp add: demo_override)
  show ?thesis
    using ineligible_poll_frame [OF demo_gps_time_data received inactive no_override,
        of demo_encoder ?m1 False] first
    by simp
qed

section \<open>The holdover bound and the extrapolated time\<close>

lemma ageSeconds_eq:
  "ageSeconds now td = unat (now - u64_sysclk_nmea_last td) div 1000000"
  by (simp add: ageSeconds_def u64_GPS_last_age_sec_def unat_div)

lemma ageSeconds_elapsed:
  "u64_sysclk_nmea_last td \<le> now \<Longrightarrow>
   ageSeconds now td = (unat now - unat (u64_sysclk_nmea_last td)) div 1000000"
  by (simp add: ageSeconds_eq unat_sub)

lemma unat_u32_unixtime_now:
  "unat (u32_unixtime_now td age) = (unat (u32_utime_nmea_last td) + unat age) mod 2 ^ 32"
proof -
  have up: "unat (ucast (u32_utime_nmea_last td) :: u64) = unat (u32_utime_nmea_last td)"
  proof -
    have "uint (ucast (u32_utime_nmea_last td) :: u64) = uint (u32_utime_nmea_last td)"
      by (rule uint_up_ucast) (simp add: is_up)
    then show ?thesis by (simp only: unat_eq_nat_uint)
  qed
  have "unat (u32_unixtime_now td age) =
          unat ((ucast (u32_utime_nmea_last td) :: u64) + age) mod 2 ^ 32"
    by (simp add: u32_unixtime_now_def unsigned_ucast_eq take_bit_eq_mod)
  also have "\<dots> = ((unat (u32_utime_nmea_last td) + unat age) mod 2 ^ 64) mod 2 ^ 32"
    by (simp add: unat_word_ariths up)
  also have "\<dots> = (unat (u32_utime_nmea_last td) + unat age) mod 2 ^ 32"
    by (simp add: mod_mod_cancel)
  finally show ?thesis .
qed

text \<open>
  Claim C6. With the solution inactive and the override enabled, the reference is
  eligible exactly when \<open>ageSeconds < 7200\<close>: an age of exactly 7200 seconds is not
  eligible, and such a poll does nothing but print.
\<close>

theorem override_boundary_strict:
  assumes inactive: "\<not> solutionActive td"
    and override: "overrideEnabled c"
  shows "(eligible c td now \<longleftrightarrow> ageSeconds now td < 7200)
       \<and> (ageSeconds now td = 7200 \<longrightarrow> \<not> eligible c td now)
       \<and> (ageSeconds now td = 7200 \<and> gps_time_data c = Some td \<and> fixEverReceived td \<noteq> 0 \<longrightarrow>
            WSPRbeaconTxScheduler enc now (Some c) m =
              Return 0 (emit (EvPrint ''%llu %lu %lu %lu %llu'') m) c)"
proof -
  have iff: "eligible c td now \<longleftrightarrow> ageSeconds now td < 7200"
    using inactive override by (simp add: eligible_iff)
  then have strict: "ageSeconds now td = 7200 \<longrightarrow> \<not> eligible c td now"
    by simp
  have "WSPRbeaconTxScheduler enc now (Some c) m =
          Return 0 (emit (EvPrint ''%llu %lu %lu %lu %llu'') m) c"
    if "ageSeconds now td = 7200" "gps_time_data c = Some td" "fixEverReceived td \<noteq> 0"
  proof (rule sched_not_eligible [OF that(2)])
    show "u32_nmea_gprmc_count td \<noteq> 0" using that(3) by (simp add: fixEverReceived_zero)
    show "\<not> eligible c td now" using that(1) iff by simp
  qed
  with iff strict show ?thesis by blast
qed

lemma demo_ageSeconds_7200: "ageSeconds 7201000000 (demo_time_data a) = 7200"
  by (simp add: ageSeconds_def u64_GPS_last_age_sec_def demo_time_data_def)

lemma demo_ageSeconds_7199: "ageSeconds 7200000000 (demo_time_data a) = 7199"
  by (simp add: ageSeconds_def u64_GPS_last_age_sec_def demo_time_data_def)

theorem override_boundary_strict_witness:
  "ageSeconds 7201000000 (demo_time_data 0) = 7200
   \<and> \<not> eligible (demo_context (demo_time_data 0) 1 3 7040100 (0 :: 8 word)) (demo_time_data 0) 7201000000
   \<and> eligible (demo_context (demo_time_data 0) 1 3 7040100 (0 :: 8 word)) (demo_time_data 0) 7200000000
   \<and> WSPRbeaconTxScheduler demo_encoder 7201000000
        (Some (demo_context (demo_time_data 0) 1 3 7040100 (0 :: 8 word))) (idle_machine 0)
      = Return 0 (emit (EvPrint ''%llu %lu %lu %lu %llu'') (idle_machine 0))
          (demo_context (demo_time_data 0) 1 3 7040100 0)"
proof -
  have inactive: "\<not> solutionActive (demo_time_data 0)" by (simp add: demo_active)
  have override: "overrideEnabled (demo_context (demo_time_data 0) 1 3 7040100 (0 :: 8 word))"
    by (simp add: demo_override)
  show ?thesis
    using override_boundary_strict [OF inactive override, of 7201000000 demo_encoder "idle_machine 0"]
      override_boundary_strict [OF inactive override, of 7200000000 demo_encoder "idle_machine 0"]
    by (simp add: demo_ageSeconds_7200 demo_ageSeconds_7199 demo_gps_time_data demo_fix)
qed

text \<open>
  Claim C7, amended. The extrapolated time is \<open>(lastFixUnixTime + ageSeconds) mod 2^32\<close>:
  the sum is stored in a \<open>uint32_t\<close>. It equals \<open>lastFixUnixTime + ageSeconds\<close> exactly
  whenever that sum is below \<open>2^32\<close>. \<open>ageSeconds\<close> is the 64-bit difference of the
  monotonic clock and the last-fix monotonic timestamp divided by \<open>10^6\<close>, for any pair of
  the two; no other clock enters, and the slot index is computed from this value.
\<close>

theorem unixtime_extrapolation:
  "unat (u32_unixtime_now td (u64_GPS_last_age_sec now td))
     = (unat (u32_utime_nmea_last td) + ageSeconds now td) mod 2 ^ 32
   \<and> (unat (u32_utime_nmea_last td) + ageSeconds now td < 2 ^ 32 \<longrightarrow>
        unat (u32_unixtime_now td (u64_GPS_last_age_sec now td))
          = unat (u32_utime_nmea_last td) + ageSeconds now td)
   \<and> ageSeconds now td = unat (now - u64_sysclk_nmea_last td) div 1000000
   \<and> (u64_sysclk_nmea_last td \<le> now \<longrightarrow>
        ageSeconds now td = (unat now - unat (u64_sysclk_nmea_last td)) div 1000000)
   \<and> slotIndex now td
       = int (((unat (u32_utime_nmea_last td) + ageSeconds now td) mod 2 ^ 32) mod 3600 div 120)"
proof -
  have a: "unat (u32_unixtime_now td (u64_GPS_last_age_sec now td))
     = (unat (u32_utime_nmea_last td) + ageSeconds now td) mod 2 ^ 32"
    by (simp add: unat_u32_unixtime_now ageSeconds_def)
  have b: "slotIndex now td
       = int (((unat (u32_utime_nmea_last td) + ageSeconds now td) mod 2 ^ 32) mod 3600 div 120)"
    unfolding slotIndex_def islot_number_eq a [symmetric]
    by (simp add: zdiv_int zmod_int)
  show ?thesis
    using a b ageSeconds_eq [of now td] ageSeconds_elapsed [of td now] by simp
qed

theorem unixtime_extrapolation_witness:
  "unat (u32_unixtime_now (demo_time_data 1) (u64_GPS_last_age_sec 7200000000 (demo_time_data 1)))
     = 1700002800 + 7199
   \<and> ageSeconds 7200000000 (demo_time_data 1) = 7199
   \<and> slotIndex 7200000000 (demo_time_data 1) = 29"
  using unixtime_extrapolation [of "demo_time_data 1" 7200000000]
  by (simp add: demo_ageSeconds_7199 demo_time_data_def)

text \<open>A fix taken six seconds before the 32-bit unix time runs out, aged ten seconds, with
  the solution active (an eligible poll): the extrapolated time is 4, not the sum
  4294967300. Claim C7 as stated fails.\<close>

theorem unixtime_extrapolation_counterexample:
  "fixEverReceived \<lparr>u32_nmea_gprmc_count = 5, u8_is_solution_active = 1,
       u64_sysclk_nmea_last = 1000000, u32_utime_nmea_last = 4294967290\<rparr> = 5
   \<and> solutionActive \<lparr>u32_nmea_gprmc_count = 5, u8_is_solution_active = 1,
       u64_sysclk_nmea_last = 1000000, u32_utime_nmea_last = 4294967290\<rparr>
   \<and> ageSeconds 11000000 \<lparr>u32_nmea_gprmc_count = 5, u8_is_solution_active = 1,
       u64_sysclk_nmea_last = 1000000, u32_utime_nmea_last = 4294967290\<rparr> = 10
   \<and> unat (u32_unixtime_now \<lparr>u32_nmea_gprmc_count = 5, u8_is_solution_active = 1,
       u64_sysclk_nmea_last = 1000000, u32_utime_nmea_last = 4294967290\<rparr>
         (u64_GPS_last_age_sec 11000000 \<lparr>u32_nmea_gprmc_count = 5, u8_is_solution_active = 1,
       u64_sysclk_nmea_last = 1000000, u32_utime_nmea_last = 4294967290\<rparr>)) = 4
   \<and> unat (u32_utime_nmea_last \<lparr>u32_nmea_gprmc_count = 5, u8_is_solution_active = 1,
       u64_sysclk_nmea_last = 1000000, u32_utime_nmea_last = 4294967290\<rparr>) + 10 = 4294967300"
  by (simp add: fixEverReceived_def solutionActive_def ageSeconds_def u64_GPS_last_age_sec_def
      u32_unixtime_now_def)

section \<open>The transmit handoff\<close>

lemma write_position_wraps:
  assumes "8 \<le> LENGTH('w::len)"
  shows "unat ((- 1 :: 'w word) + of_nat WSPR_SYMBOL_COUNT) < unat (- 1 :: 'w word)"
proof -
  have "(2::nat) ^ 8 \<le> 2 ^ LENGTH('w)"
    using assms by (rule power_increasing) simp
  then have big: "(256::nat) \<le> 2 ^ LENGTH('w)" by simp
  have "(- 1 :: 'w word) + of_nat WSPR_SYMBOL_COUNT = 161"
    by (simp add: WSPR_SYMBOL_COUNT_def)
  moreover have "unat (161 :: 'w word) = 161"
    using big by (simp add: unsigned_numeral take_bit_nat_eq_self)
  moreover have "unat (- 1 :: 'w word) = 2 ^ LENGTH('w) - 1"
    by (simp add: unsigned_minus_1_eq_mask mask_eq_exp_minus_1)
  ultimately show ?thesis using big by simp
qed

text \<open>
  Claim C5, amended. SendPacket aborts (a failed assertion, not a status return) whenever
  the effective transmit frequency is at most 1,100,000 Hz; for every context whose
  effective frequency exceeds 1,100,000 Hz it returns 0, copies the symbols and advances
  the write position by the symbol count modulo \<open>2^w\<close>, \<open>w\<close> being the width of the
  counter: by exactly the symbol count, without decreasing, as long as the sum stays
  below \<open>2^w\<close>.
\<close>

theorem send_packet_contract:
  fixes c :: "('w::len) word WSPRbeaconContext"
  assumes tx: "pTX c = Some tx"
  shows "(u32_dialfreqhz tx \<le> 1100000 \<longrightarrow> WSPRbeaconSendPacket (Some c) m = Fault AssertFailed m)
       \<and> (1100000 < u32_dialfreqhz tx \<longrightarrow>
            is_Return (WSPRbeaconSendPacket (Some c) m)
          \<and> ret (WSPRbeaconSendPacket (Some c) m) = 0
          \<and> new_events m (WSPRbeaconSendPacket (Some c) m) = [EvMemcpy WSPR_SYMBOL_COUNT]
          \<and> map_option pbyte_buffer (pTX (cont (WSPRbeaconSendPacket (Some c) m)))
              = Some (take WSPR_SYMBOL_COUNT (pu8_outbuf c) @ drop WSPR_SYMBOL_COUNT (pbyte_buffer tx))
          \<and> map_option ix_input (pTX (cont (WSPRbeaconSendPacket (Some c) m)))
              = Some (ix_input tx + of_nat WSPR_SYMBOL_COUNT)
          \<and> write_position (cont (WSPRbeaconSendPacket (Some c) m))
              = Some ((unat (ix_input tx) + WSPR_SYMBOL_COUNT) mod 2 ^ LENGTH('w))
          \<and> (unat (ix_input tx) + WSPR_SYMBOL_COUNT < 2 ^ LENGTH('w) \<longrightarrow>
                write_position (cont (WSPRbeaconSendPacket (Some c) m))
                  = Some (unat (ix_input tx) + WSPR_SYMBOL_COUNT)))"
proof (intro conjI impI)
  assume "u32_dialfreqhz tx \<le> 1100000"
  then show "WSPRbeaconSendPacket (Some c) m = Fault AssertFailed m"
    by (rule send_abort [OF tx])
next
  assume freq: "1100000 < u32_dialfreqhz tx"
  note eq = send_ok [OF tx freq, of m]
  show "is_Return (WSPRbeaconSendPacket (Some c) m)" by (simp add: eq)
  show "ret (WSPRbeaconSendPacket (Some c) m) = 0" by (simp add: eq)
  show "new_events m (WSPRbeaconSendPacket (Some c) m) = [EvMemcpy WSPR_SYMBOL_COUNT]"
    by (simp add: eq new_events_emit1)
  show "map_option pbyte_buffer (pTX (cont (WSPRbeaconSendPacket (Some c) m)))
          = Some (take WSPR_SYMBOL_COUNT (pu8_outbuf c) @ drop WSPR_SYMBOL_COUNT (pbyte_buffer tx))"
    by (simp add: eq memcpy_def)
  show "map_option ix_input (pTX (cont (WSPRbeaconSendPacket (Some c) m)))
          = Some (ix_input tx + of_nat WSPR_SYMBOL_COUNT)"
    by (simp add: eq)
  show wp: "write_position (cont (WSPRbeaconSendPacket (Some c) m))
          = Some ((unat (ix_input tx) + WSPR_SYMBOL_COUNT) mod 2 ^ LENGTH('w))"
    by (simp add: eq write_position_def unat_word_ariths unat_of_nat mod_simps)
  assume "unat (ix_input tx) + WSPR_SYMBOL_COUNT < 2 ^ LENGTH('w)"
  then show "write_position (cont (WSPRbeaconSendPacket (Some c) m))
          = Some (unat (ix_input tx) + WSPR_SYMBOL_COUNT)"
    by (simp add: wp)
qed

theorem send_packet_contract_witness:
  "WSPRbeaconSendPacket (Some (demo_context (demo_time_data 1) 0 3 1100000 (0 :: 8 word))) (idle_machine 0)
     = Fault AssertFailed (idle_machine 0)
   \<and> ret (WSPRbeaconSendPacket (Some (demo_context (demo_time_data 1) 0 3 7040100 (0 :: 8 word)))
        (idle_machine 0)) = 0
   \<and> write_position (cont (WSPRbeaconSendPacket
        (Some (demo_context (demo_time_data 1) 0 3 7040100 (0 :: 8 word))) (idle_machine 0))) = Some 162
   \<and> map_option ix_input (pTX (cont (WSPRbeaconSendPacket
        (Some (demo_context (demo_time_data 1) 0 3 7040100 (0 :: 8 word))) (idle_machine 0)))) = Some 162"
  using send_packet_contract [OF demo_pTX [of "demo_time_data 1" 0 3 1100000 "0 :: 8 word"],
      of "idle_machine 0"]
    send_packet_contract [OF demo_pTX [of "demo_time_data 1" 0 3 7040100 "0 :: 8 word"],
      of "idle_machine 0"]
  by (simp add: demo_freq demo_ix WSPR_SYMBOL_COUNT_def)

text \<open>With an 8-bit write position at 100 the handoff succeeds and leaves the position at
  6: the counter has decreased, so claim C5 as stated fails. By \<open>write_position_wraps\<close>
  a counter of any width of at least 8 bits decreases in the same way at its largest
  value.\<close>

theorem send_packet_contract_counterexample:
  "1100000 < u32_dialfreqhz (demo_channel (demo_time_data 1) 7040100 (100 :: 8 word))
   \<and> write_position (demo_context (demo_time_data 1) 0 3 7040100 (100 :: 8 word)) = Some 100
   \<and> ret (WSPRbeaconSendPacket (Some (demo_context (demo_time_data 1) 0 3 7040100 (100 :: 8 word)))
        (idle_machine 0)) = 0
   \<and> write_position (cont (WSPRbeaconSendPacket
        (Some (demo_context (demo_time_data 1) 0 3 7040100 (100 :: 8 word))) (idle_machine 0))) = Some 6"
proof -
  have freq: "1100000 < u32_dialfreqhz (demo_channel (demo_time_data 1) 7040100 (100 :: 8 word))"
    by (simp add: demo_freq)
  note eq = send_ok [OF demo_pTX freq, of 0 3 "idle_machine 0"]
  show ?thesis
    by (simp add: eq write_position_def demo_pTX demo_ix demo_freq WSPR_SYMBOL_COUNT_def)
qed

section \<open>The order of the actions\<close>

lemma new_events_same:
  "new_events m (Fault f m) = []"
  "new_events m (Return r m c) = []"
  by (simp_all add: new_events_def)

lemma poll_events_valid:
  assumes td: "gps_time_data c = Some td"
  shows "set (new_events m (WSPRbeaconTxScheduler enc now (Some c) m)) \<inter> set tx_events \<noteq> {} \<longrightarrow>
     (is_Return (WSPRbeaconTxScheduler enc now (Some c) m) \<and>
      new_events m (WSPRbeaconTxScheduler enc now (Some c) m) =
        [EvPrint ''%llu %lu %lu %lu %llu'', EvPrint ''Start transmission.'',
         EvEncode, EvDCOStart, EvSleepMs 100, EvMemcpy WSPR_SYMBOL_COUNT])
   \<or> (is_Fault (WSPRbeaconTxScheduler enc now (Some c) m) \<and>
      flt (WSPRbeaconTxScheduler enc now (Some c) m) = AssertFailed \<and>
      new_events m (WSPRbeaconTxScheduler enc now (Some c) m) =
        [EvPrint ''%llu %lu %lu %lu %llu'', EvPrint ''Start transmission.'',
         EvEncode, EvDCOStart, EvSleepMs 100])"
proof (cases rule: poll_cases [where td = td and c = c and now = now and m = m])
  case unavailable
  then show ?thesis
    by (simp add: sched_unavailable [OF td] new_events_def emit_def tx_events_def)
next
  case ineligible
  then show ?thesis
    by (simp add: sched_not_eligible [OF td] new_events_def emit_def tx_events_def)
next
  case skip_zero
  then show ?thesis
    by (simp add: sched_skip_zero [OF td] new_events_def emit_def tx_events_def)
next
  case non_slot
  then show ?thesis
    by (simp add: sched_non_slot [OF td] new_events_def emit_def tx_events_def)
next
  case latched
  then show ?thesis
    by (simp add: sched_latched [OF td] new_events_def emit_def tx_events_def)
next
  case trigger
  obtain tx where tx: "pTX c = Some tx" using gps_time_data_pTX [OF td] by blast
  show ?thesis
  proof (cases "1100000 < u32_dialfreqhz tx")
    case True
    show ?thesis
      by (simp add: sched_trigger_ok [OF td trigger tx True] new_events_def)
  next
    case False
    then have low: "u32_dialfreqhz tx \<le> 1100000" by simp
    show ?thesis
      by (simp add: sched_trigger_abort [OF td trigger tx low] new_events_def)
  qed
qed

text \<open>
  Claim C8. In every poll in which any of the four actions of a trigger occurs, the
  events of the poll are, in this order: the two prints, encode, oscillator start, the
  100 ms settle delay and the handoff; when the assertion of SendPacket fails the poll
  ends after the settle delay. The settle delay is after the hardware start and before
  the handoff.
\<close>

theorem trigger_action_order:
  "set (new_events m (WSPRbeaconTxScheduler enc now pctx m)) \<inter> set tx_events \<noteq> {} \<longrightarrow>
     (is_Return (WSPRbeaconTxScheduler enc now pctx m) \<and>
      new_events m (WSPRbeaconTxScheduler enc now pctx m) =
        [EvPrint ''%llu %lu %lu %lu %llu'', EvPrint ''Start transmission.'',
         EvEncode, EvDCOStart, EvSleepMs 100, EvMemcpy WSPR_SYMBOL_COUNT])
   \<or> (is_Fault (WSPRbeaconTxScheduler enc now pctx m) \<and>
      flt (WSPRbeaconTxScheduler enc now pctx m) = AssertFailed \<and>
      new_events m (WSPRbeaconTxScheduler enc now pctx m) =
        [EvPrint ''%llu %lu %lu %lu %llu'', EvPrint ''Start transmission.'',
         EvEncode, EvDCOStart, EvSleepMs 100])"
proof (cases pctx)
  case None
  then show ?thesis by (simp add: sched_null new_events_same)
next
  case (Some c)
  show ?thesis
  proof (cases "gps_time_data c")
    case None
    then show ?thesis by (simp add: Some sched_no_time_data new_events_same)
  next
    case (Some td)
    then show ?thesis unfolding \<open>pctx = Some c\<close> by (rule poll_events_valid)
  qed
qed

theorem trigger_action_order_witness:
  "new_events (idle_machine 0)
     (WSPRbeaconTxScheduler demo_encoder 6000000
        (Some (demo_context (demo_time_data 1) 0 3 7040100 (0 :: 8 word))) (idle_machine 0)) =
     [EvPrint ''%llu %lu %lu %lu %llu'', EvPrint ''Start transmission.'',
      EvEncode, EvDCOStart, EvSleepMs 100, EvMemcpy WSPR_SYMBOL_COUNT]"
proof -
  let ?out = "WSPRbeaconTxScheduler demo_encoder 6000000
        (Some (demo_context (demo_time_data 1) 0 3 7040100 (0 :: 8 word))) (idle_machine 0)"
  have eq: "?out = Return 0
           \<lparr>itx_trigger = 1,
            trace = [EvPrint ''%llu %lu %lu %lu %llu'', EvPrint ''Start transmission.'',
                     EvEncode, EvDCOStart, EvSleepMs 100, EvMemcpy WSPR_SYMBOL_COUNT]\<rparr>
           (cont ?out)"
    by (rule demo_trigger) simp_all
  have started: "EvDCOStart \<in> set (new_events (idle_machine 0) ?out)"
    by (subst eq) (simp add: new_events_def idle_machine_def)
  have ret: "is_Return ?out" by (subst eq) simp
  have "set (new_events (idle_machine 0) ?out) \<inter> set tx_events \<noteq> {}"
    using started by (auto simp: tx_events_def)
  with trigger_action_order [of "idle_machine 0" demo_encoder 6000000
      "Some (demo_context (demo_time_data 1) 0 3 7040100 (0 :: 8 word))"] ret
  show ?thesis by (auto simp: outcome.disc_eq_case split: outcome.splits)
qed

section \<open>The latch\<close>

lemma observes_slotD:
  assumes "observes_slot c td now"
  shows "gps_time_data c = Some td" "u32_nmea_gprmc_count td \<noteq> 0" "eligible c td now"
    "u8_tx_slot_skip (txSched c) \<noteq> 0" "0 < skipFactor c"
  using assms
  by (simp_all add: observes_slot_def fixEverReceived_zero eligible_iff skipFactor_pos
      skipFactor_def order_less_le)


lemma qualifying_islot_modulo:
  "observes_slot c td now \<Longrightarrow> qualifying c td now \<longleftrightarrow> islot_modulo c td now = 0"
  by (simp add: qualifying_def islot_modulo_eq observes_slotD(5))

lemma poll_latched:
  assumes "observes_slot c td now" "qualifying c td now" "itx_trigger m \<noteq> 0"
  shows "WSPRbeaconTxScheduler enc now (Some c) m =
           Return 0 (emit (EvPrint ''%llu %lu %lu %lu %llu'') m) c"
  using assms
  by (intro sched_latched observes_slotD) (simp_all add: qualifying_islot_modulo)


lemma poll_trigger:
  assumes "observes_slot c td now" "qualifying c td now" "itx_trigger m = 0"
    "pTX c = Some tx" "1100000 < u32_dialfreqhz tx"
  shows "WSPRbeaconTxScheduler enc now (Some c) m =
     Return 0
       (m\<lparr>itx_trigger := 1,
          trace := trace m @ [EvPrint ''%llu %lu %lu %lu %llu'', EvPrint ''Start transmission.'',
                              EvEncode, EvDCOStart, EvSleepMs 100, EvMemcpy WSPR_SYMBOL_COUNT]\<rparr>)
       (c\<lparr>pu8_outbuf := enc (pu8_callsign c) (pu8_locator c) (u8_txpower c) (pu8_outbuf c),
          pTX := Some (tx\<lparr>pbyte_buffer :=
                            memcpy (pbyte_buffer tx)
                              (enc (pu8_callsign c) (pu8_locator c) (u8_txpower c) (pu8_outbuf c))
                              WSPR_SYMBOL_COUNT,
                          ix_input := ix_input tx + of_nat WSPR_SYMBOL_COUNT\<rparr>)\<rparr>)"
  using assms
  by (intro sched_trigger_ok observes_slotD) (simp_all add: qualifying_islot_modulo)

lemma poll_trigger_triggered:
  assumes "observes_slot c td now" "qualifying c td now" "itx_trigger m = 0"
    "pTX c = Some tx" "1100000 < u32_dialfreqhz tx"
  shows "triggered m (WSPRbeaconTxScheduler enc now (Some c) m)"
    "itx_trigger (mach (WSPRbeaconTxScheduler enc now (Some c) m)) = 1"
  by (simp_all add: poll_trigger [OF assms] triggered_def new_events_def actions_simps tx_events_def)


lemma demo_observes:
  "a \<noteq> 0 \<Longrightarrow> skip \<noteq> 0 \<Longrightarrow>
   observes_slot (demo_context (demo_time_data a) past skip freq ix) (demo_time_data a) now"
  by (simp add: observes_slot_def demo_gps_time_data demo_fix demo_active demo_skipFactor
      uint_0_iff)

lemma demo_slot3: "slotIndex 366000000 (demo_time_data a) = 3"
  by (simp add: slotIndex_def u64_GPS_last_age_sec_def u32_unixtime_now_def demo_time_data_def
      islot_number_eq)

lemma demo_qualifying:
  "qualifying (demo_context (demo_time_data a) past 3 freq ix) (demo_time_data a) 6000000"
  "\<not> qualifying (demo_context (demo_time_data a) past 3 freq ix) (demo_time_data a) 126000000"
  "qualifying (demo_context (demo_time_data a) past 3 freq ix) (demo_time_data a) 366000000"
  by (simp_all add: qualifying_def demo_skipFactor demo_slot demo_slot2 demo_slot3)

section \<open>One latch for all contexts\<close>

text \<open>
  Claim C9, amended. The edge-trigger latch is one function-level static variable shared
  by all beacon contexts: the latch that a poll of one context leaves is the latch that
  the next poll reads, whichever context it polls. After a poll of one context has
  triggered, a poll of any other context that observes a qualifying slot returns 0 with
  no action and does not trigger.
\<close>

theorem latch_shared:
  assumes A: "observes_slot cA tdA nowA" "qualifying cA tdA nowA"
      "pTX cA = Some txA" "1100000 < u32_dialfreqhz txA"
    and latch: "itx_trigger m = 0"
    and B: "observes_slot cB tdB nowB" "qualifying cB tdB nowB"
  shows "triggered m (WSPRbeaconTxScheduler enc nowA (Some cA) m)
       \<and> itx_trigger (mach (WSPRbeaconTxScheduler enc nowA (Some cA) m)) = 1
       \<and> WSPRbeaconTxScheduler enc nowB (Some cB) (mach (WSPRbeaconTxScheduler enc nowA (Some cA) m))
           = Return 0 (emit (EvPrint ''%llu %lu %lu %lu %llu'')
                         (mach (WSPRbeaconTxScheduler enc nowA (Some cA) m))) cB
       \<and> \<not> triggered (mach (WSPRbeaconTxScheduler enc nowA (Some cA) m))
             (WSPRbeaconTxScheduler enc nowB (Some cB)
                (mach (WSPRbeaconTxScheduler enc nowA (Some cA) m)))"
proof -
  let ?mA = "mach (WSPRbeaconTxScheduler enc nowA (Some cA) m)"
  have t: "triggered m (WSPRbeaconTxScheduler enc nowA (Some cA) m)"
    by (rule poll_trigger_triggered(1) [OF A(1,2) latch A(3,4)])
  have l: "itx_trigger ?mA = 1"
    by (rule poll_trigger_triggered(2) [OF A(1,2) latch A(3,4)])
  then have l': "itx_trigger ?mA \<noteq> 0" by simp
  have eq: "WSPRbeaconTxScheduler enc nowB (Some cB) ?mA
           = Return 0 (emit (EvPrint ''%llu %lu %lu %lu %llu'') ?mA) cB"
    by (rule poll_latched [OF B l'])
  have "\<not> triggered ?mA (WSPRbeaconTxScheduler enc nowB (Some cB) ?mA)"
    unfolding eq by (simp add: triggered_def new_events_emit1 actions_simps tx_events_def)
  with t l eq show ?thesis by simp
qed

theorem latch_shared_witness:
  "triggered (idle_machine 0)
     (WSPRbeaconTxScheduler demo_encoder 6000000
        (Some (demo_context (demo_time_data 1) 0 3 7040100 (0 :: 8 word))) (idle_machine 0))
   \<and> ret (WSPRbeaconTxScheduler demo_encoder 6000000
        (Some (demo_context (demo_time_data 1) 0 3 14097100 (0 :: 8 word)))
        (mach (WSPRbeaconTxScheduler demo_encoder 6000000
           (Some (demo_context (demo_time_data 1) 0 3 7040100 (0 :: 8 word))) (idle_machine 0)))) = 0
   \<and> cont (WSPRbeaconTxScheduler demo_encoder 6000000
        (Some (demo_context (demo_time_data 1) 0 3 14097100 (0 :: 8 word)))
        (mach (WSPRbeaconTxScheduler demo_encoder 6000000
           (Some (demo_context (demo_time_data 1) 0 3 7040100 (0 :: 8 word))) (idle_machine 0))))
      = demo_context (demo_time_data 1) 0 3 14097100 0"
proof -
  have latch: "itx_trigger (idle_machine 0) = 0" by (simp add: idle_machine_def)
  have freq: "1100000 < u32_dialfreqhz (demo_channel (demo_time_data 1) 7040100 (0 :: 8 word))"
    by (simp add: demo_freq)
  have obs: "observes_slot (demo_context (demo_time_data 1) 0 3 f (0 :: 8 word))
      (demo_time_data 1) 6000000" for f
    by (rule demo_observes) simp_all
  show ?thesis
    using latch_shared [OF obs demo_qualifying(1) demo_pTX freq latch
        obs [of 14097100] demo_qualifying(1), where enc = demo_encoder]
    by simp
qed

text \<open>Two contexts, polled in the same qualifying slot. Polled first, the second context
  triggers; polled after the first context, which set the latch, it does not: the poll of
  one context changed the latch the other reads, so claim C9 as stated fails.\<close>

theorem latch_shared_counterexample:
  "triggered (idle_machine 0)
     (WSPRbeaconTxScheduler demo_encoder 6000000
        (Some (demo_context (demo_time_data 1) 0 3 14097100 (0 :: 8 word))) (idle_machine 0))
   \<and> \<not> triggered
       (mach (WSPRbeaconTxScheduler demo_encoder 6000000
          (Some (demo_context (demo_time_data 1) 0 3 7040100 (0 :: 8 word))) (idle_machine 0)))
       (WSPRbeaconTxScheduler demo_encoder 6000000
          (Some (demo_context (demo_time_data 1) 0 3 14097100 (0 :: 8 word)))
          (mach (WSPRbeaconTxScheduler demo_encoder 6000000
             (Some (demo_context (demo_time_data 1) 0 3 7040100 (0 :: 8 word))) (idle_machine 0))))"
proof -
  let ?A = "demo_context (demo_time_data 1) 0 3 7040100 (0 :: 8 word)"
  let ?B = "demo_context (demo_time_data 1) 0 3 14097100 (0 :: 8 word)"
  let ?mA = "mach (WSPRbeaconTxScheduler demo_encoder 6000000 (Some ?A) (idle_machine 0))"
  have latch: "itx_trigger (idle_machine 0) = 0" by (simp add: idle_machine_def)
  have freq: "1100000 < u32_dialfreqhz (demo_channel (demo_time_data 1) f (0 :: 8 word))"
    if "1100000 < f" for f
    using that by (simp add: demo_freq)
  have obs: "observes_slot (demo_context (demo_time_data 1) 0 3 f (0 :: 8 word))
      (demo_time_data 1) 6000000" for f
    by (rule demo_observes) simp_all
  have alone: "triggered (idle_machine 0)
     (WSPRbeaconTxScheduler demo_encoder 6000000 (Some ?B) (idle_machine 0))"
    by (rule poll_trigger_triggered(1) [OF obs demo_qualifying(1) latch demo_pTX freq]) simp
  have "itx_trigger ?mA = 1"
    by (rule poll_trigger_triggered(2) [OF obs demo_qualifying(1) latch demo_pTX freq]) simp
  then have set: "itx_trigger ?mA \<noteq> 0" by simp
  have "WSPRbeaconTxScheduler demo_encoder 6000000 (Some ?B) ?mA
           = Return 0 (emit (EvPrint ''%llu %lu %lu %lu %llu'') ?mA) ?B"
    by (rule poll_latched [OF obs demo_qualifying(1) set])
  then have "\<not> triggered ?mA (WSPRbeaconTxScheduler demo_encoder 6000000 (Some ?B) ?mA)"
    by (simp add: triggered_def new_events_emit1 actions_simps tx_events_def)
  with alone show ?thesis by simp
qed

lemma actions_append: "actions (es @ es') = actions es @ actions es'"
  by (simp add: actions_def)





section \<open>The latch across polls\<close>



end
